theory Spec2Isabelle
  imports Complex_Main "HOL-Library.Multiset"
begin

section \<open>Numbers as the program has them\<close>

text \<open>
  Every quantity of the program is a numpy/pandas double. The model keeps the special
  values that the code can produce and test for (\<open>nan\<close>, \<open>inf\<close>, \<open>-inf\<close>) and takes
  the finite values as exact reals: rounding and signed zeros are left out, the
  propagation of \<open>nan\<close> and \<open>inf\<close> through \<open>+ - * /\<close>, \<open>sqrt\<close> and the comparisons is
  the one of IEEE 754 as numpy applies it (a division by zero is not an exception for a
  numpy double: it yields \<open>inf\<close>, \<open>-inf\<close> or \<open>nan\<close>).
\<close>

datatype npfloat = Fin real | PosInf | NegInf | NaN

instantiation npfloat :: uminus
begin

fun uminus_npfloat :: "npfloat \<Rightarrow> npfloat" where
  "uminus_npfloat (Fin x) = Fin (- x)"
| "uminus_npfloat PosInf = NegInf"
| "uminus_npfloat NegInf = PosInf"
| "uminus_npfloat NaN = NaN"

instance ..

end

instantiation npfloat :: plus
begin

fun plus_npfloat :: "npfloat \<Rightarrow> npfloat \<Rightarrow> npfloat" where
  "plus_npfloat NaN y = NaN"
| "plus_npfloat x NaN = NaN"
| "plus_npfloat (Fin x) (Fin y) = Fin (x + y)"
| "plus_npfloat PosInf NegInf = NaN"
| "plus_npfloat NegInf PosInf = NaN"
| "plus_npfloat PosInf y = PosInf"
| "plus_npfloat x PosInf = PosInf"
| "plus_npfloat NegInf y = NegInf"
| "plus_npfloat x NegInf = NegInf"

instance ..

end

instantiation npfloat :: minus
begin

definition minus_npfloat :: "npfloat \<Rightarrow> npfloat \<Rightarrow> npfloat" where
  "minus_npfloat x y = x + (- y)"

instance ..

end

text \<open>The sign of a double, used by the products and quotients with an infinity.\<close>

datatype fsign = Neg | Zero | Pos | Nan

fun sign_of :: "npfloat \<Rightarrow> fsign" where
  "sign_of (Fin x) = (if x < 0 then Neg else if x = 0 then Zero else Pos)"
| "sign_of PosInf = Pos"
| "sign_of NegInf = Neg"
| "sign_of NaN = Nan"

fun inf_of_signs :: "fsign \<Rightarrow> fsign \<Rightarrow> npfloat" where
  "inf_of_signs Pos Pos = PosInf"
| "inf_of_signs Neg Neg = PosInf"
| "inf_of_signs Pos Neg = NegInf"
| "inf_of_signs Neg Pos = NegInf"
| "inf_of_signs a b = NaN"

instantiation npfloat :: times
begin

fun times_npfloat :: "npfloat \<Rightarrow> npfloat \<Rightarrow> npfloat" where
  "times_npfloat (Fin x) (Fin y) = Fin (x * y)"
| "times_npfloat x y = inf_of_signs (sign_of x) (sign_of y)"

instance ..

end

instantiation npfloat :: inverse
begin

fun divide_npfloat :: "npfloat \<Rightarrow> npfloat \<Rightarrow> npfloat" where
  "divide_npfloat (Fin x) (Fin y) =
     (if y = 0 then inf_of_signs (sign_of (Fin x)) Pos else Fin (x / y))"
| "divide_npfloat NaN y = NaN"
| "divide_npfloat x NaN = NaN"
| "divide_npfloat (Fin x) PosInf = Fin 0"
| "divide_npfloat (Fin x) NegInf = Fin 0"
| "divide_npfloat PosInf (Fin y) = (if y < 0 then NegInf else PosInf)"
| "divide_npfloat NegInf (Fin y) = (if y < 0 then PosInf else NegInf)"
| "divide_npfloat x y = NaN"

definition inverse_npfloat :: "npfloat \<Rightarrow> npfloat" where
  "inverse_npfloat x = Fin 1 div x"

instance ..

end

text \<open>Comparisons: every comparison with \<open>nan\<close> is false.\<close>

instantiation npfloat :: ord
begin

fun less_npfloat :: "npfloat \<Rightarrow> npfloat \<Rightarrow> bool" where
  "less_npfloat NaN y = False"
| "less_npfloat x NaN = False"
| "less_npfloat (Fin x) (Fin y) = (x < y)"
| "less_npfloat x NegInf = False"
| "less_npfloat PosInf y = False"
| "less_npfloat NegInf y = True"
| "less_npfloat x PosInf = True"

fun less_eq_npfloat :: "npfloat \<Rightarrow> npfloat \<Rightarrow> bool" where
  "less_eq_npfloat NaN y = False"
| "less_eq_npfloat x NaN = False"
| "less_eq_npfloat (Fin x) (Fin y) = (x \<le> y)"
| "less_eq_npfloat NegInf y = True"
| "less_eq_npfloat x PosInf = True"
| "less_eq_npfloat x NegInf = False"
| "less_eq_npfloat PosInf y = False"

instance ..

end

fun np_sqrt :: "npfloat \<Rightarrow> npfloat" where
  "np_sqrt (Fin x) = (if x < 0 then NaN else Fin (sqrt x))"
| "np_sqrt PosInf = PosInf"
| "np_sqrt NegInf = NaN"
| "np_sqrt NaN = NaN"

section \<open>numpy and pandas reductions\<close>

text \<open>
  \<open>fsum\<close> adds the entries up. numpy's \<open>mean\<close> divides the sum by the count, so the
  mean of an empty array is \<open>0 / 0 = nan\<close>; \<open>std\<close> on an array is the population
  standard deviation (\<open>ddof = 0\<close>). \<open>xs[-n:]\<close> is \<open>last_n n xs\<close>: the last \<open>n\<close> entries,
  all of them when there are fewer.
\<close>

primrec fsum :: "npfloat list \<Rightarrow> npfloat" where
  "fsum [] = Fin 0"
| "fsum (x # xs) = x + fsum xs"

definition np_mean :: "npfloat list \<Rightarrow> npfloat" where
  "np_mean xs = fsum xs / Fin (real (length xs))"

definition sq_dev :: "npfloat \<Rightarrow> npfloat list \<Rightarrow> npfloat list" where
  "sq_dev m xs = map (\<lambda>x. (x - m) * (x - m)) xs"

definition np_std :: "npfloat list \<Rightarrow> npfloat" where
  "np_std xs = np_sqrt (np_mean (sq_dev (np_mean xs) xs))"

definition last_n :: "nat \<Rightarrow> 'a list \<Rightarrow> 'a list" where
  "last_n n xs = drop (length xs - n) xs"

text \<open>
  A pandas Series skips its \<open>nan\<close> entries (\<open>skipna=True\<close>): \<open>sum\<close> of nothing is 0,
  \<open>mean\<close> of nothing is \<open>nan\<close>, and \<open>var\<close>/\<open>std\<close> are the sample statistics
  (\<open>ddof = 1\<close>), \<open>nan\<close> when at most one entry is left.
\<close>

definition dropna :: "npfloat list \<Rightarrow> npfloat list" where
  "dropna xs = filter (\<lambda>x. x \<noteq> NaN) xs"

definition pd_sum :: "npfloat list \<Rightarrow> npfloat" where
  "pd_sum xs = fsum (dropna xs)"

definition pd_mean :: "npfloat list \<Rightarrow> npfloat" where
  "pd_mean xs = np_mean (dropna xs)"

definition pd_var :: "npfloat list \<Rightarrow> npfloat" where
  "pd_var xs =
     (let ys = dropna xs in
      if length ys \<le> 1 then NaN
      else fsum (sq_dev (np_mean ys) ys) / Fin (real (length ys - 1)))"

definition pd_std :: "npfloat list \<Rightarrow> npfloat" where
  "pd_std xs = np_sqrt (pd_var xs)"

definition fillna :: "npfloat \<Rightarrow> npfloat \<Rightarrow> npfloat" where
  "fillna v x = (if x = NaN then v else x)"

section \<open>Errors\<close>

datatype py_error = KeyError string | IndexError | TypeError

section \<open>Policy models (rop\_calculations.py)\<close>

text \<open>
  The dictionary a policy function returns: the keys \<open>rop\<close>, \<open>safety_stock\<close>,
  \<open>method\<close>, and for the dynamic policy \<open>wma_demand\<close> and \<open>forecasted_lt\<close>
  (\<open>None\<close> for a key the fixed policy does not set).

  \<open>scipy.stats.norm.ppf\<close> is a library function outside the repository: the policy
  functions take it as their first argument \<open>norm_ppf\<close>.
\<close>

record rop_result =
  rr_rop :: npfloat
  rr_safety_stock :: npfloat
  rr_method :: string
  rr_wma_demand :: "npfloat option"
  rr_forecasted_lt :: "npfloat option"

definition calculate_fixed_rop ::
  "(real \<Rightarrow> npfloat) \<Rightarrow> npfloat \<Rightarrow> npfloat \<Rightarrow> npfloat \<Rightarrow> real \<Rightarrow> rop_result" where
  "calculate_fixed_rop norm_ppf avg_daily_demand avg_lead_time demand_std service_level =
     (let z_score = norm_ppf service_level;
          safety_stock = z_score * demand_std * np_sqrt avg_lead_time;
          reorder_point = (avg_daily_demand * avg_lead_time) + safety_stock
      in \<lparr>rr_rop = reorder_point, rr_safety_stock = safety_stock, rr_method = ''fixed'',
          rr_wma_demand = None, rr_forecasted_lt = None\<rparr>)"

definition default_weights :: "string \<rightharpoonup> npfloat" where
  "default_weights = [''30d'' \<mapsto> Fin 0.5, ''60d'' \<mapsto> Fin 0.3, ''90d'' \<mapsto> Fin 0.2]"

definition lookup :: "(string \<rightharpoonup> 'v) \<Rightarrow> string \<Rightarrow> py_error + 'v" where
  "lookup d k = (case d k of None \<Rightarrow> Inl (KeyError k) | Some v \<Rightarrow> Inr v)"

definition weighted_demand :: "(string \<rightharpoonup> npfloat) \<Rightarrow> npfloat list \<Rightarrow> py_error + npfloat" where
  "weighted_demand weights recent_demand =
     (if length recent_demand \<ge> 90 then
        (let demand_30d = np_mean (last_n 30 recent_demand);
             demand_60d = np_mean (last_n 60 recent_demand);
             demand_90d = np_mean (last_n 90 recent_demand)
         in case lookup weights ''30d'' of Inl e \<Rightarrow> Inl e | Inr w30 \<Rightarrow>
           (case lookup weights ''60d'' of Inl e \<Rightarrow> Inl e | Inr w60 \<Rightarrow>
           (case lookup weights ''90d'' of Inl e \<Rightarrow> Inl e | Inr w90 \<Rightarrow>
              Inr (w30 * demand_30d + w60 * demand_60d + w90 * demand_90d))))
      else Inr (np_mean recent_demand))"

definition calculate_dynamic_rop ::
  "(real \<Rightarrow> npfloat) \<Rightarrow> npfloat list \<Rightarrow> npfloat list \<Rightarrow> real \<Rightarrow> (string \<rightharpoonup> npfloat)
     \<Rightarrow> py_error + rop_result" where
  "calculate_dynamic_rop norm_ppf recent_demand recent_lead_times service_level weights =
     (case weighted_demand weights recent_demand of
        Inl e \<Rightarrow> Inl e
      | Inr wma_demand \<Rightarrow>
         (let forecasted_lt =
                (if length recent_lead_times > 0 then np_mean (last_n 10 recent_lead_times)
                 else Fin 14);
              recent_std =
                (if length recent_demand \<ge> 30 then np_std (last_n 30 recent_demand)
                 else np_std recent_demand);
              z_score = norm_ppf service_level;
              safety_stock = z_score * recent_std * np_sqrt forecasted_lt;
              reorder_point = (wma_demand * forecasted_lt) + safety_stock
          in Inr \<lparr>rr_rop = reorder_point, rr_safety_stock = safety_stock,
                  rr_method = ''dynamic'', rr_wma_demand = Some wma_demand,
                  rr_forecasted_lt = Some forecasted_lt\<rparr>))"

section \<open>The random generator\<close>

text \<open>
  numpy's global generator is state that every draw reads and advances. The model passes
  that state along (type \<open>'g\<close>) and takes the four operations the program calls as a
  record of functions: \<open>np.random.seed(n)\<close> gives the state after seeding,
  \<open>np.random.shuffle\<close>, \<open>np.random.choice\<close> and \<open>np.random.random\<close> return their
  result and the state after the draw.
\<close>

record ('g, 'k) np_random =
  rng_seed :: "int \<Rightarrow> 'g"
  rng_shuffle :: "'g \<Rightarrow> 'k list \<Rightarrow> 'k list \<times> 'g"
  rng_choice :: "'g \<Rightarrow> npfloat list \<Rightarrow> npfloat \<times> 'g"
  rng_random :: "'g \<Rightarrow> npfloat \<times> 'g"

section \<open>Input tables\<close>

text \<open>
  A table is the list of its rows, a row a record of the columns the program reads:
  column \<open>c\<close> of the SKU master is \<open>sm_c\<close>, of the daily demand \<open>dd_c\<close>, of the
  purchase orders \<open>po_c\<close>, of the per-SKU statistics \<open>st_c\<close>.
\<close>

record 'k sku_master_row =
  sm_sku_id :: 'k
  sm_abc_class :: string

record 'k demand_row =
  dd_sku_id :: 'k
  dd_quantity :: npfloat

record 'k po_row =
  po_sku_id :: 'k
  po_lead_time_days :: npfloat

record 'k sku_stats_row =
  st_sku_id :: 'k
  st_avg_daily_demand :: npfloat
  st_demand_std :: npfloat
  st_total_demand :: npfloat
  st_avg_lead_time :: npfloat
  st_lead_time_std :: npfloat

section \<open>Assignment strategy (assign\_treatment\_groups)\<close>

definition class_skus_of :: "'k sku_master_row list \<Rightarrow> string \<Rightarrow> 'k list" where
  "class_skus_of sku_master abc_class =
     map sm_sku_id (filter (\<lambda>row. sm_abc_class row = abc_class) sku_master)"

text \<open>
  One round of the loop over the classes: the stratum is shuffled, \<open>split = n // 2\<close>, the
  first \<open>split\<close> SKUs extend the control list and the others the treatment list.
\<close>

definition assign_class ::
  "('g, 'k) np_random \<Rightarrow> 'k sku_master_row list \<Rightarrow> string \<Rightarrow> 'k list \<times> 'k list \<times> 'g
     \<Rightarrow> 'k list \<times> 'k list \<times> 'g" where
  "assign_class R sku_master abc_class acc =
     (case acc of (control_skus, treatment_skus, g) \<Rightarrow>
        (let n = length (class_skus_of sku_master abc_class);
             (class_skus, g') = rng_shuffle R g (class_skus_of sku_master abc_class);
             split = n div 2
         in (control_skus @ take split class_skus, treatment_skus @ drop split class_skus, g')))"

text \<open>
  \<open>g0\<close> is the state of the global generator when the function is called; the function
  seeds the generator first, with the configured \<open>random_seed\<close>.
\<close>

definition assign_treatment_groups ::
  "('g, 'k) np_random \<Rightarrow> int \<Rightarrow> 'g \<Rightarrow> 'k sku_master_row list \<Rightarrow> 'k list \<times> 'k list \<times> 'g" where
  "assign_treatment_groups R random_seed g0 sku_master =
     foldl (\<lambda>acc abc_class. assign_class R sku_master abc_class acc)
       ([], [], rng_seed R random_seed) [''A'', ''B'', ''C'']"

section \<open>SKU statistics builder (calculate\_sku\_statistics)\<close>

text \<open>
  \<open>groupby('sku_id')\<close> has one group per key, in ascending order of the keys, and
  \<open>agg\<close> applies the Series reductions to each group. The left merge keeps every
  demand group; a SKU without purchase orders gets \<open>nan\<close> in both lead-time columns,
  which is also what mean and std of no rows are. \<open>fillna\<close> then replaces every \<open>nan\<close>
  of the two lead-time columns.
\<close>

definition calculate_sku_statistics ::
  "('k::linorder) demand_row list \<Rightarrow> 'k po_row list \<Rightarrow> 'k sku_stats_row list" where
  "calculate_sku_statistics daily_demand purchase_orders =
     map (\<lambda>sku.
        (let quantity = map dd_quantity (filter (\<lambda>row. dd_sku_id row = sku) daily_demand);
             lead_time_days =
               map po_lead_time_days (filter (\<lambda>row. po_sku_id row = sku) purchase_orders)
         in \<lparr>st_sku_id = sku,
             st_avg_daily_demand = pd_mean quantity,
             st_demand_std = pd_std quantity,
             st_total_demand = pd_sum quantity,
             st_avg_lead_time = fillna (Fin 14) (pd_mean lead_time_days),
             st_lead_time_std = fillna (Fin 3) (pd_std lead_time_days)\<rparr>))
       (sort (remdups (map dd_sku_id daily_demand)))"

section \<open>Inventory simulator (simulate\_sku\_inventory)\<close>

text \<open>The variables of the day loop.\<close>

record sim_state =
  inventory :: npfloat
  on_order :: npfloat
  stockouts :: int
  total_demand :: npfloat
  demand_met :: npfloat
  inventory_levels :: "npfloat list"

text \<open>The dictionary the simulation returns: key \<open>k\<close> is the field \<open>sr_k\<close>.\<close>

record sim_metrics =
  sr_fill_rate :: npfloat
  sr_avg_inventory :: npfloat
  sr_stockout_count :: int
  sr_total_demand :: npfloat
  sr_demand_met :: npfloat

definition initial_state :: "npfloat \<Rightarrow> sim_state" where
  "initial_state rop =
     \<lparr>inventory = rop * Fin 2, on_order = Fin 0, stockouts = 0, total_demand = Fin 0,
      demand_met = Fin 0, inventory_levels = []\<rparr>"

definition order_quantity :: "npfloat \<Rightarrow> npfloat" where
  "order_quantity rop = rop * Fin 1.5"

text \<open>Daily demand: sampled from the history, 0 when there is none.\<close>

definition draw_demand ::
  "('g, 'k) np_random \<Rightarrow> 'g \<Rightarrow> 'k demand_row list \<Rightarrow> npfloat \<times> 'g" where
  "draw_demand R g demand_data =
     (if length demand_data > 0 then rng_choice R g (map dd_quantity demand_data)
      else (Fin 0, g))"

text \<open>Fulfill demand.\<close>

definition fulfill_demand :: "npfloat \<Rightarrow> sim_state \<Rightarrow> sim_state" where
  "fulfill_demand daily_demand s =
     (if inventory s \<ge> daily_demand then
        s\<lparr>inventory := inventory s - daily_demand, demand_met := demand_met s + daily_demand\<rparr>
      else
        s\<lparr>demand_met := demand_met s + inventory s, inventory := Fin 0,
          stockouts := stockouts s + 1\<rparr>)"

text \<open>Check if need to reorder.\<close>

definition check_reorder :: "npfloat \<Rightarrow> npfloat \<Rightarrow> sim_state \<Rightarrow> sim_state" where
  "check_reorder rop order_qty s =
     (if inventory s \<le> rop \<and> on_order s = Fin 0 then s\<lparr>on_order := order_qty\<rparr> else s)"

text \<open>
  Receive orders. The \<open>and\<close> of the source draws the random number only when an order is
  outstanding.
\<close>

definition receive_orders ::
  "('g, 'k) np_random \<Rightarrow> npfloat \<Rightarrow> sim_state \<times> 'g \<Rightarrow> sim_state \<times> 'g" where
  "receive_orders R lead_time sg =
     (case sg of (s, g) \<Rightarrow>
        if on_order s > Fin 0 then
          (let (u, g') = rng_random R g in
           if u < Fin 1 / lead_time
           then (s\<lparr>inventory := inventory s + on_order s, on_order := Fin 0\<rparr>, g')
           else (s, g'))
        else (s, g))"

definition simulate_day ::
  "('g, 'k) np_random \<Rightarrow> 'k demand_row list \<Rightarrow> npfloat \<Rightarrow> npfloat \<Rightarrow> npfloat
     \<Rightarrow> sim_state \<times> 'g \<Rightarrow> sim_state \<times> 'g" where
  "simulate_day R demand_data rop order_qty lead_time sg =
     (case sg of (s, g) \<Rightarrow>
        (let (daily_demand, g1) = draw_demand R g demand_data;
             s1 = s\<lparr>total_demand := total_demand s + daily_demand\<rparr>;
             s2 = fulfill_demand daily_demand s1;
             s3 = check_reorder rop order_qty s2;
             (s4, g2) = receive_orders R lead_time (s3, g1)
         in (s4\<lparr>inventory_levels := inventory_levels s4 @ [inventory s4]\<rparr>, g2)))"

text \<open>The state after the first \<open>n\<close> days of \<open>for day in range(test_days)\<close>.\<close>

primrec simulate_days ::
  "('g, 'k) np_random \<Rightarrow> 'k demand_row list \<Rightarrow> npfloat \<Rightarrow> npfloat \<Rightarrow> npfloat
     \<Rightarrow> nat \<Rightarrow> sim_state \<times> 'g \<Rightarrow> sim_state \<times> 'g" where
  "simulate_days R demand_data rop order_qty lead_time 0 sg = sg"
| "simulate_days R demand_data rop order_qty lead_time (Suc n) sg =
     simulate_day R demand_data rop order_qty lead_time
       (simulate_days R demand_data rop order_qty lead_time n sg)"

definition simulate_sku_inventory ::
  "('g, 'k) np_random \<Rightarrow> nat \<Rightarrow> 'g \<Rightarrow> 'k \<Rightarrow> 'k demand_row list \<Rightarrow> npfloat \<Rightarrow> npfloat
     \<Rightarrow> sim_metrics \<times> 'g" where
  "simulate_sku_inventory R test_days g sku demand_data rop lead_time =
     (let (s, g') = simulate_days R demand_data rop (order_quantity rop) lead_time test_days
                      (initial_state rop, g);
          fill_rate = (if total_demand s > Fin 0
                       then demand_met s / total_demand s * Fin 100 else Fin 100);
          avg_inventory = np_mean (inventory_levels s)
      in (\<lparr>sr_fill_rate = fill_rate, sr_avg_inventory = avg_inventory,
           sr_stockout_count = stockouts s, sr_total_demand = total_demand s,
           sr_demand_met = demand_met s\<rparr>, g'))"

section \<open>One arm of the test (simulate\_group)\<close>

text \<open>A row of the results table: the simulation's dictionary and the four keys added.\<close>

record 'k sim_result = sim_metrics +
  sr_sku_id :: 'k
  sr_method :: string
  sr_rop :: npfloat
  sr_safety_stock :: npfloat

text \<open>
  The body of the loop over the SKUs. \<open>.iloc[0]\<close> on the statistics of a SKU that has
  none raises IndexError.
\<close>

definition simulate_sku ::
  "('g, 'k) np_random \<Rightarrow> (real \<Rightarrow> npfloat) \<Rightarrow> real \<Rightarrow> nat \<Rightarrow> 'k demand_row list
     \<Rightarrow> 'k sku_stats_row list \<Rightarrow> string \<Rightarrow> 'g \<Rightarrow> 'k \<Rightarrow> py_error + ('k sim_result \<times> 'g)" where
  "simulate_sku R norm_ppf service_level test_days daily_demand sku_stats method g sku =
     (case filter (\<lambda>row. st_sku_id row = sku) sku_stats of
        [] \<Rightarrow> Inl IndexError
      | sku_data # others \<Rightarrow>
         (let sku_demand = filter (\<lambda>row. dd_sku_id row = sku) daily_demand in
          case (if method = ''fixed'' then
                  Inr (calculate_fixed_rop norm_ppf (st_avg_daily_demand sku_data)
                         (st_avg_lead_time sku_data) (st_demand_std sku_data) service_level)
                else
                  (let recent_demand = map dd_quantity sku_demand;
                       recent_lt = replicate 10 (st_avg_lead_time sku_data)
                   in calculate_dynamic_rop norm_ppf recent_demand recent_lt service_level
                        default_weights)) of
            Inl e \<Rightarrow> Inl e
          | Inr rop_result \<Rightarrow>
             (let (sim_result, g') =
                    simulate_sku_inventory R test_days g sku sku_demand (rr_rop rop_result)
                      (st_avg_lead_time sku_data)
              in Inr (\<lparr>sr_fill_rate = sr_fill_rate sim_result,
                       sr_avg_inventory = sr_avg_inventory sim_result,
                       sr_stockout_count = sr_stockout_count sim_result,
                       sr_total_demand = sr_total_demand sim_result,
                       sr_demand_met = sr_demand_met sim_result,
                       sr_sku_id = sku, sr_method = method, sr_rop = rr_rop rop_result,
                       sr_safety_stock = rr_safety_stock rop_result\<rparr>, g'))))"

fun simulate_group ::
  "('g, 'k) np_random \<Rightarrow> (real \<Rightarrow> npfloat) \<Rightarrow> real \<Rightarrow> nat \<Rightarrow> 'g \<Rightarrow> 'k list
     \<Rightarrow> 'k demand_row list \<Rightarrow> 'k sku_stats_row list \<Rightarrow> string
     \<Rightarrow> py_error + ('k sim_result list \<times> 'g)" where
  "simulate_group R norm_ppf service_level test_days g [] daily_demand sku_stats method =
     Inr ([], g)"
| "simulate_group R norm_ppf service_level test_days g (sku # sku_list) daily_demand sku_stats
     method =
     (case simulate_sku R norm_ppf service_level test_days daily_demand sku_stats method g sku of
        Inl e \<Rightarrow> Inl e
      | Inr (row, g') \<Rightarrow>
         (case simulate_group R norm_ppf service_level test_days g' sku_list daily_demand
                 sku_stats method of
            Inl e \<Rightarrow> Inl e
          | Inr (results, g'') \<Rightarrow> Inr (row # results, g'')))"

section \<open>Statistical comparator (compare\_means)\<close>

text \<open>
  \<open>scipy.stats.ttest_ind\<close> is a library function outside the repository and the first
  argument of the model; \<open>alpha\<close> is the analyzer's configured significance level. The
  samples are pandas Series. Key \<open>k\<close> of the returned dictionary is the field \<open>cm_k\<close>.
\<close>

record comparison_metric =
  cm_metric :: string
  cm_control_mean :: npfloat
  cm_treatment_mean :: npfloat
  cm_difference :: npfloat
  cm_pct_change :: npfloat
  cm_p_value :: npfloat
  cm_is_significant :: bool
  cm_cohens_d :: npfloat
  cm_ci_lower :: npfloat
  cm_ci_upper :: npfloat

definition pooled_std_of :: "npfloat list \<Rightarrow> npfloat list \<Rightarrow> npfloat" where
  "pooled_std_of control treatment =
     np_sqrt ((pd_std control * pd_std control + pd_std treatment * pd_std treatment) / Fin 2)"

definition compare_means ::
  "(npfloat list \<Rightarrow> npfloat list \<Rightarrow> npfloat \<times> npfloat) \<Rightarrow> npfloat \<Rightarrow> npfloat list
     \<Rightarrow> npfloat list \<Rightarrow> string \<Rightarrow> comparison_metric" where
  "compare_means ttest_ind alpha control treatment metric_name =
     (let (t_stat, p_value) = ttest_ind treatment control;
          control_mean = pd_mean control;
          treatment_mean = pd_mean treatment;
          difference = treatment_mean - control_mean;
          pct_change = (difference / control_mean) * Fin 100;
          pooled_std = pooled_std_of control treatment;
          cohens_d = (if pooled_std > Fin 0 then difference / pooled_std else Fin 0);
          se = np_sqrt (pd_var control / Fin (real (length control))
                        + pd_var treatment / Fin (real (length treatment)));
          ci_lower = difference - Fin 1.96 * se;
          ci_upper = difference + Fin 1.96 * se;
          is_significant = (p_value < alpha)
      in \<lparr>cm_metric = metric_name, cm_control_mean = control_mean,
          cm_treatment_mean = treatment_mean, cm_difference = difference,
          cm_pct_change = pct_change, cm_p_value = p_value,
          cm_is_significant = is_significant, cm_cohens_d = cohens_d,
          cm_ci_lower = ci_lower, cm_ci_upper = ci_upper\<rparr>)"

section \<open>ROI computation (calculate\_roi)\<close>

text \<open>
  The configuration is the nested dictionary read from the YAML file: a section name
  gives the section's dictionary, whose values are numbers or strings. A missing key
  raises KeyError; a carrying-cost rate that is a string raises TypeError at the
  product. Key \<open>k\<close> of the returned dictionary is the field \<open>roi_k\<close>.
\<close>

datatype yaml_value = YNum npfloat | YStr string

type_synonym config = "string \<rightharpoonup> (string \<rightharpoonup> yaml_value)"

record roi_report =
  roi_inventory_savings :: npfloat
  roi_annual_carrying_savings :: npfloat
  roi_stockout_savings :: npfloat
  roi_total_annual_benefit :: npfloat
  roi_payback_months :: npfloat
  roi_npv_3year :: npfloat
  roi_roi_year1 :: npfloat

definition of_count :: "int \<Rightarrow> npfloat" where
  "of_count n = Fin (of_int n)"

definition calculate_roi ::
  "config \<Rightarrow> 'k sim_result list \<Rightarrow> 'k sim_result list \<Rightarrow> py_error + roi_report" where
  "calculate_roi config control treatment =
     (let avg_unit_cost = Fin 25;
          control_inv_value = pd_sum (map sr_avg_inventory control) * avg_unit_cost;
          treatment_inv_value = pd_sum (map sr_avg_inventory treatment) * avg_unit_cost;
          inventory_savings = control_inv_value - treatment_inv_value
      in case lookup config ''simulation'' of Inl e \<Rightarrow> Inl e | Inr simulation \<Rightarrow>
        (case lookup simulation ''carrying_cost_rate'' of Inl e \<Rightarrow> Inl e
         | Inr (YStr text) \<Rightarrow> Inl TypeError
         | Inr (YNum carrying_rate) \<Rightarrow>
            (let annual_carrying_savings = inventory_savings * carrying_rate;
                 stockout_cost_per_incident = 150;
                 control_stockouts = sum_list (map sr_stockout_count control);
                 treatment_stockouts = sum_list (map sr_stockout_count treatment);
                 stockout_savings =
                   of_count ((control_stockouts - treatment_stockouts) * stockout_cost_per_incident);
                 implementation_cost = Fin 50000;
                 annual_maintenance = Fin 15000;
                 total_annual_benefit =
                   annual_carrying_savings + stockout_savings - annual_maintenance;
                 payback_months =
                   (if total_annual_benefit > Fin 0
                    then implementation_cost / (total_annual_benefit / Fin 12) else PosInf);
                 npv = foldl (\<lambda>npv year. npv + total_annual_benefit / Fin (1.10 ^ year))
                         (- implementation_cost) [1, 2, 3];
                 roi_year1 =
                   (total_annual_benefit - implementation_cost) / implementation_cost * Fin 100
             in Inr \<lparr>roi_inventory_savings = inventory_savings,
                     roi_annual_carrying_savings = annual_carrying_savings,
                     roi_stockout_savings = stockout_savings,
                     roi_total_annual_benefit = total_annual_benefit,
                     roi_payback_months = payback_months,
                     roi_npv_3year = npv,
                     roi_roi_year1 = roi_year1\<rparr>)))"

section \<open>Invariants of the day loop\<close>

text \<open>
  \<open>sound_state\<close>: inventory, outstanding order and the two demand totals are finite and
  not negative, and the demand met does not exceed the total demand.
  \<open>order_inv\<close>: nothing is on order, or exactly the order quantity of the run.
\<close>

definition sound_state :: "sim_state \<Rightarrow> bool" where
  "sound_state s \<longleftrightarrow>
     (\<exists>i q m t. inventory s = Fin i \<and> on_order s = Fin q \<and> demand_met s = Fin m
        \<and> total_demand s = Fin t \<and> 0 \<le> i \<and> 0 \<le> q \<and> 0 \<le> m \<and> m \<le> t)"


section \<open>Inputs for the examples\<close>

text \<open>
  The theorems below hold for every generator, quantile function and t-test. Their
  examples need concrete ones: a generator whose state counts the draws (\<open>choice\<close> walks
  through the array, \<open>shuffle\<close> rotates the list, \<open>random\<close> returns \<open>1 / (g + 2)\<close>),
  the values of \<open>scipy.stats.norm.ppf\<close> at three service levels to four decimals, and
  a t-test that reports \<open>nan\<close> twice.
\<close>

definition counter_rng :: "(nat, 'k) np_random" where
  "counter_rng =
     \<lparr>rng_seed = (\<lambda>n. nat \<bar>n\<bar>),
      rng_shuffle = (\<lambda>g xs. (rotate g xs, Suc g)),
      rng_choice = (\<lambda>g xs. (xs ! (g mod length xs), Suc g)),
      rng_random = (\<lambda>g. (Fin (1 / real (g + 2)), Suc g))\<rparr>"

definition norm_ppf_table :: "real \<Rightarrow> npfloat" where
  "norm_ppf_table p =
     (if p = 0.95 then Fin 1.6449 else if p = 0.5 then Fin 0
      else if p = 0.3 then Fin (- 0.5244) else NaN)"

definition ttest_nan :: "npfloat list \<Rightarrow> npfloat list \<Rightarrow> npfloat \<times> npfloat" where
  "ttest_nan a b = (NaN, NaN)"

text \<open>
  Two result tables of one SKU each, and a configuration that sets the carrying-cost
  rate and, in a section of its own, the monetary constants the specification lists.
\<close>

definition control_example :: "nat sim_result list" where
  "control_example =
     [\<lparr>sr_fill_rate = Fin 95, sr_avg_inventory = Fin 100, sr_stockout_count = 2,
       sr_total_demand = Fin 400, sr_demand_met = Fin 380, sr_sku_id = 1,
       sr_method = ''fixed'', sr_rop = Fin 50, sr_safety_stock = Fin 10\<rparr>]"

definition treatment_example :: "nat sim_result list" where
  "treatment_example =
     [\<lparr>sr_fill_rate = Fin 90, sr_avg_inventory = Fin 120, sr_stockout_count = 3,
       sr_total_demand = Fin 400, sr_demand_met = Fin 360, sr_sku_id = 2,
       sr_method = ''dynamic'', sr_rop = Fin 60, sr_safety_stock = Fin 12\<rparr>]"

definition config_example :: "npfloat \<Rightarrow> npfloat \<Rightarrow> config" where
  "config_example carrying_cost_rate unit_cost =
     [''simulation'' \<mapsto> [''carrying_cost_rate'' \<mapsto> YNum carrying_cost_rate],
      ''roi'' \<mapsto> [''unit_cost'' \<mapsto> YNum unit_cost]]"

definition sku_master_example :: "nat sku_master_row list" where
  "sku_master_example =
     [\<lparr>sm_sku_id = 1, sm_abc_class = ''A''\<rparr>, \<lparr>sm_sku_id = 2, sm_abc_class = ''A''\<rparr>,
      \<lparr>sm_sku_id = 3, sm_abc_class = ''A''\<rparr>, \<lparr>sm_sku_id = 4, sm_abc_class = ''B''\<rparr>]"

definition demand_example :: "nat demand_row list" where
  "demand_example = [\<lparr>dd_sku_id = 1, dd_quantity = Fin 15\<rparr>]"

section \<open>Facts about the reductions on finite values\<close>

lemma not_pos_of_le_zero: "a \<le> Fin 0 \<Longrightarrow> \<not> (Fin 0 < a)"
  by (cases a) auto

lemma fsum_Fin: "fsum (map Fin xs) = Fin (sum_list xs)"
  by (induction xs) auto

lemma dropna_Fin: "dropna (map Fin xs) = map Fin xs"
  by (induction xs) (auto simp: dropna_def)

lemma np_mean_Fin: "xs \<noteq> [] \<Longrightarrow> np_mean (map Fin xs) = Fin (sum_list xs / real (length xs))"
  by (simp add: np_mean_def fsum_Fin)

lemma fsum_Fin_map: "fsum (map (\<lambda>x. Fin (f x)) xs) = Fin (sum_list (map f xs))"
  by (induction xs) auto

lemma np_mean_Fin_map:
  "xs \<noteq> [] \<Longrightarrow> np_mean (map (\<lambda>x. Fin (f x)) xs) = Fin (sum_list (map f xs) / real (length xs))"
  by (simp add: np_mean_def fsum_Fin_map)

lemma sq_dev_Fin: "sq_dev (Fin m) (map Fin xs) = map (\<lambda>x. Fin ((x - m) * (x - m))) xs"
  by (simp add: sq_dev_def minus_npfloat_def)

lemma sum_list_sq_nonneg: "0 \<le> sum_list (map (\<lambda>x. (x - m) * (x - m)) (xs::real list))"
  by (induction xs) auto

lemma np_std_Fin:
  assumes "xs \<noteq> []"
  shows "\<exists>s. 0 \<le> s \<and> np_std (map Fin xs) = Fin s"
proof -
  define m where "m = sum_list xs / real (length xs)"
  define v where "v = sum_list (map (\<lambda>x. (x - m) * (x - m)) xs) / real (length xs)"
  have v: "0 \<le> v" unfolding v_def using sum_list_sq_nonneg[of m xs] by simp
  have "np_mean (map Fin xs) = Fin m"
    using assms by (simp add: np_mean_Fin m_def)
  then have "np_mean (sq_dev (np_mean (map Fin xs)) (map Fin xs)) = Fin v"
    using assms by (simp add: sq_dev_Fin np_mean_Fin_map v_def)
  then have "np_std (map Fin xs) = Fin (sqrt v)"
    using v by (simp add: np_std_def)
  then show ?thesis using v by auto
qed

lemma last_n_map: "last_n n (map f xs) = map f (last_n n xs)"
  by (simp add: last_n_def drop_map)

lemma last_n_subset: "set (last_n n xs) \<subseteq> set xs"
  by (simp add: last_n_def set_drop_subset)

lemma last_n_nonempty: "xs \<noteq> [] \<Longrightarrow> 0 < n \<Longrightarrow> last_n n xs \<noteq> []"
  by (cases xs) (auto simp: last_n_def)

lemma np_mean_nonneg:
  assumes "xs \<noteq> []" "\<forall>x\<in>set xs. 0 \<le> x"
  shows "\<exists>m. 0 \<le> m \<and> np_mean (map Fin xs) = Fin m"
proof -
  have "0 \<le> sum_list xs" using assms(2) by (simp add: sum_list_nonneg)
  then have "0 \<le> sum_list xs / real (length xs)" by simp
  then show ?thesis using assms(1) by (auto simp: np_mean_Fin)
qed

lemma sum_list_pos: "xs \<noteq> [] \<Longrightarrow> \<forall>x\<in>set xs. 0 < x \<Longrightarrow> 0 < sum_list (xs::real list)"
proof (induction xs)
  case Nil
  then show ?case by simp
next
  case (Cons a xs)
  then show ?case by (cases xs) (auto simp: add_pos_pos)
qed

lemma np_mean_pos:
  assumes "xs \<noteq> []" "\<forall>x\<in>set xs. 0 < x"
  shows "\<exists>m. 0 < m \<and> np_mean (map Fin xs) = Fin m"
proof -
  have "0 < sum_list xs" using assms by (rule sum_list_pos)
  moreover have "0 < real (length xs)" using assms(1) by simp
  ultimately have "0 < sum_list xs / real (length xs)" by simp
  then show ?thesis using assms(1) by (auto simp: np_mean_Fin)
qed

lemma np_mean_last_n_nonneg:
  assumes "xs \<noteq> []" "\<forall>x\<in>set xs. 0 \<le> x" "0 < n"
  shows "\<exists>m. 0 \<le> m \<and> np_mean (last_n n (map Fin xs)) = Fin m"
proof -
  have "last_n n xs \<noteq> []" using assms(1,3) by (rule last_n_nonempty)
  moreover have "\<forall>x\<in>set (last_n n xs). 0 \<le> x" using assms(2) last_n_subset by fastforce
  ultimately show ?thesis by (simp add: last_n_map np_mean_nonneg)
qed

lemma weighted_demand_nonneg:
  assumes "ds \<noteq> []" "\<forall>x\<in>set ds. 0 \<le> x"
  shows "\<exists>w. 0 \<le> w \<and> weighted_demand default_weights (map Fin ds) = Inr (Fin w)"
proof (cases "90 \<le> length ds")
  case True
  obtain m30 where m30: "0 \<le> m30" "np_mean (last_n 30 (map Fin ds)) = Fin m30"
    using np_mean_last_n_nonneg[OF assms, of 30] by auto
  obtain m60 where m60: "0 \<le> m60" "np_mean (last_n 60 (map Fin ds)) = Fin m60"
    using np_mean_last_n_nonneg[OF assms, of 60] by auto
  obtain m90 where m90: "0 \<le> m90" "np_mean (last_n 90 (map Fin ds)) = Fin m90"
    using np_mean_last_n_nonneg[OF assms, of 90] by auto
  have "weighted_demand default_weights (map Fin ds)
          = Inr (Fin (0.5 * m30 + 0.3 * m60 + 0.2 * m90))"
    using True m30(2) m60(2) m90(2)
    by (simp add: weighted_demand_def default_weights_def lookup_def)
  moreover have "0 \<le> 0.5 * m30 + 0.3 * m60 + 0.2 * m90"
    using m30(1) m60(1) m90(1) by simp
  ultimately show ?thesis by blast
next
  case False
  then have "weighted_demand default_weights (map Fin ds) = Inr (np_mean (map Fin ds))"
    by (simp add: weighted_demand_def)
  then show ?thesis using np_mean_nonneg[OF assms] by auto
qed

lemma forecasted_lt_pos:
  assumes "\<forall>x\<in>set ls. 0 < x"
  shows "\<exists>l. 0 < l \<and>
    (if length (map Fin ls) > 0 then np_mean (last_n 10 (map Fin ls)) else Fin 14) = Fin l"
proof (cases "ls = []")
  case True
  then show ?thesis by simp
next
  case False
  then have "last_n 10 ls \<noteq> []" by (simp add: last_n_nonempty)
  moreover have "\<forall>x\<in>set (last_n 10 ls). 0 < x" using assms last_n_subset by fastforce
  ultimately show ?thesis using False by (simp add: last_n_map np_mean_pos)
qed

lemma recent_std_nonneg:
  assumes "ds \<noteq> []"
  shows "\<exists>s. 0 \<le> s \<and>
    (if length (map Fin ds) \<ge> 30 then np_std (last_n 30 (map Fin ds)) else np_std (map Fin ds))
      = Fin s"
proof -
  have "last_n 30 ds \<noteq> []" using assms by (simp add: last_n_nonempty)
  then show ?thesis using assms by (simp add: last_n_map np_std_Fin)
qed

section \<open>Policy models: sign of the reorder point (C2)\<close>

text \<open>
  C2, as the code has it. With finite statistics (average demand \<open>d \<ge> 0\<close>, lead time
  \<open>l > 0\<close>, standard deviation \<open>sd \<ge> 0\<close>) and a service level whose z-score is finite
  and not negative (a probability from 0.5 up to, not including, 1), the fixed policy
  returns a reorder point and a safety stock that are \<open>\<ge> 0\<close>; so does the dynamic
  policy, called with the default weights on a non-empty history of non-negative demands
  and on positive lead times (none at all included).
\<close>

theorem rop_policies_nonnegative:
  assumes z: "norm_ppf service_level = Fin z" "0 \<le> z"
    and fixed_stats: "0 \<le> d" "0 < l" "0 \<le> sd"
    and demand: "ds \<noteq> []" "\<forall>x\<in>set ds. 0 \<le> x"
    and lead_times: "\<forall>x\<in>set ls. 0 < x"
  shows "Fin 0 \<le> rr_rop (calculate_fixed_rop norm_ppf (Fin d) (Fin l) (Fin sd) service_level)
       \<and> Fin 0 \<le> rr_safety_stock
                    (calculate_fixed_rop norm_ppf (Fin d) (Fin l) (Fin sd) service_level)
       \<and> (\<exists>r. calculate_dynamic_rop norm_ppf (map Fin ds) (map Fin ls) service_level
                 default_weights = Inr r
              \<and> Fin 0 \<le> rr_rop r \<and> Fin 0 \<le> rr_safety_stock r)"
proof -
  have fixed: "Fin 0 \<le> rr_rop (calculate_fixed_rop norm_ppf (Fin d) (Fin l) (Fin sd) service_level)
       \<and> Fin 0 \<le> rr_safety_stock
                    (calculate_fixed_rop norm_ppf (Fin d) (Fin l) (Fin sd) service_level)"
    using z fixed_stats by (simp add: calculate_fixed_rop_def Let_def)
  obtain w where w: "0 \<le> w" "weighted_demand default_weights (map Fin ds) = Inr (Fin w)"
    using weighted_demand_nonneg[OF demand] by auto
  obtain lt where lt: "0 < lt"
    "(if length (map Fin ls) > 0 then np_mean (last_n 10 (map Fin ls)) else Fin 14) = Fin lt"
    using forecasted_lt_pos[OF lead_times] by auto
  obtain s where s: "0 \<le> s"
    "(if length (map Fin ds) \<ge> 30 then np_std (last_n 30 (map Fin ds)) else np_std (map Fin ds))
      = Fin s"
    using recent_std_nonneg[OF demand(1)] by auto
  have "calculate_dynamic_rop norm_ppf (map Fin ds) (map Fin ls) service_level default_weights
     = Inr \<lparr>rr_rop = Fin (w * lt + z * s * sqrt lt), rr_safety_stock = Fin (z * s * sqrt lt),
            rr_method = ''dynamic'', rr_wma_demand = Some (Fin w),
            rr_forecasted_lt = Some (Fin lt)\<rparr>"
    unfolding calculate_dynamic_rop_def w(2) lt(2) s(2) using z(1) lt(1)
    by (simp add: Let_def)
  moreover have "0 \<le> z * s * sqrt lt" using z(2) s(1) lt(1) by simp
  moreover have "0 \<le> w * lt + z * s * sqrt lt" using w(1) lt(1) z(2) s(1) by simp
  ultimately show ?thesis using fixed by simp
qed

theorem rop_policies_nonnegative_witness:
  "Fin 0 \<le> rr_rop (calculate_fixed_rop norm_ppf_table (Fin 10) (Fin 4) (Fin 2) 0.95)
   \<and> Fin 0 \<le> rr_safety_stock (calculate_fixed_rop norm_ppf_table (Fin 10) (Fin 4) (Fin 2) 0.95)
   \<and> (\<exists>r. calculate_dynamic_rop norm_ppf_table (map Fin [3, 5]) (map Fin [7, 7]) 0.95
              default_weights = Inr r
          \<and> Fin 0 \<le> rr_rop r \<and> Fin 0 \<le> rr_safety_stock r)"
  using rop_policies_nonnegative
    [of norm_ppf_table "0.95" "1.6449" 10 4 2 "[3, 5]" "[7, 7]"]
  by (simp add: norm_ppf_table_def)

text \<open>
  The claim as stated admits every probability as service level. Below one half the
  z-score is negative and so is the safety stock: at service level 0.3
  (\<open>norm.ppf(0.3) = -0.5244\<close>), average demand 2, lead time 1 and standard deviation 8
  the safety stock is \<open>-4.1952\<close> and the reorder point \<open>-2.1952\<close>.
\<close>

theorem rop_policies_low_service_level_counterexample:
  "rr_safety_stock (calculate_fixed_rop norm_ppf_table (Fin 2) (Fin 1) (Fin 8) 0.3)
     = Fin (- 4.1952)
   \<and> rr_rop (calculate_fixed_rop norm_ppf_table (Fin 2) (Fin 1) (Fin 8) 0.3) = Fin (- 2.1952)
   \<and> \<not> Fin 0 \<le> rr_safety_stock (calculate_fixed_rop norm_ppf_table (Fin 2) (Fin 1) (Fin 8) 0.3)
   \<and> \<not> Fin 0 \<le> rr_rop (calculate_fixed_rop norm_ppf_table (Fin 2) (Fin 1) (Fin 8) 0.3)"
  by (simp add: calculate_fixed_rop_def norm_ppf_table_def Let_def)

section \<open>Dynamic policy: the plain-mean fallback (C5)\<close>

text \<open>
  C5. With fewer than 90 demand observations the dynamic policy returns, whatever the
  weights, the mean of all observations as \<open>wma_demand\<close>; its forecasted lead time is
  the mean of the last 10 lead times, or 14 when there are none; and its reorder point
  is \<open>mean(demand) * forecasted_lt + safety_stock\<close>. On finite observations
  the mean is their sum divided by their number.
\<close>

theorem calculate_dynamic_rop_plain_mean_fallback:
  assumes "length recent_demand < 90"
  shows "\<exists>r lt. calculate_dynamic_rop norm_ppf recent_demand recent_lead_times service_level
                  weights = Inr r
           \<and> rr_wma_demand r = Some (np_mean recent_demand)
           \<and> rr_forecasted_lt r = Some lt
           \<and> lt = (if recent_lead_times = [] then Fin 14
                   else np_mean (last_n 10 recent_lead_times))
           \<and> rr_rop r = np_mean recent_demand * lt + rr_safety_stock r
           \<and> (\<forall>ds. recent_demand = map Fin ds \<and> ds \<noteq> [] \<longrightarrow>
                 np_mean recent_demand = Fin (sum_list ds / real (length ds)))"
  using assms
  by (auto simp: calculate_dynamic_rop_def weighted_demand_def Let_def np_mean_Fin)

theorem calculate_dynamic_rop_plain_mean_fallback_witness:
  "\<exists>r. calculate_dynamic_rop norm_ppf_table (map Fin [3, 5]) (map Fin [6, 8]) 0.95
          default_weights = Inr r
       \<and> rr_wma_demand r = Some (Fin 4)
       \<and> rr_forecasted_lt r = Some (Fin 7)
       \<and> rr_rop r = Fin 4 * Fin 7 + rr_safety_stock r"
  using calculate_dynamic_rop_plain_mean_fallback
    [of "map Fin [3, 5]" norm_ppf_table "map Fin [6, 8]" "0.95" default_weights]
  by (auto simp: np_mean_def last_n_def)

section \<open>ROI computation: payback without benefit (C9)\<close>

text \<open>
  C9. With a configuration that holds a numeric \<open>simulation.carrying_cost_rate\<close> the ROI
  computation returns a report for every pair of result tables, and when the total
  annual benefit of the report is \<open>\<le> 0\<close> its payback period is \<open>inf\<close>; the 3-year NPV
  and the year-1 ROI are computed from the benefit by divisions whose divisors are the
  constants \<open>1.10 ^ year\<close> and 50000.
\<close>

theorem calculate_roi_non_positive_benefit:
  assumes "config ''simulation'' = Some simulation"
    and "simulation ''carrying_cost_rate'' = Some (YNum carrying_rate)"
  shows "\<exists>r. calculate_roi config control treatment = Inr r
           \<and> (roi_total_annual_benefit r \<le> Fin 0 \<longrightarrow> roi_payback_months r = PosInf)
           \<and> roi_npv_3year r =
               - Fin 50000 + roi_total_annual_benefit r / Fin (1.10 ^ 1)
                 + roi_total_annual_benefit r / Fin (1.10 ^ 2)
                 + roi_total_annual_benefit r / Fin (1.10 ^ 3)
           \<and> roi_roi_year1 r =
               (roi_total_annual_benefit r - Fin 50000) / Fin 50000 * Fin 100"
  using assms
  by (simp add: calculate_roi_def lookup_def Let_def not_pos_of_le_zero)

theorem calculate_roi_non_positive_benefit_witness:
  "\<exists>r. calculate_roi (config_example (Fin 0.25) (Fin 25)) control_example treatment_example
          = Inr r
       \<and> roi_total_annual_benefit r = Fin (- 15275)
       \<and> roi_payback_months r = PosInf
       \<and> roi_npv_3year r = Fin (- 50000 - 15275 / 1.1 - 15275 / 1.21 - 15275 / 1.331)
       \<and> roi_roi_year1 r = Fin (- 130.55)"
  using calculate_roi_non_positive_benefit
    [of "config_example (Fin 0.25) (Fin 25)" "[''carrying_cost_rate'' \<mapsto> YNum (Fin 0.25)]"
        "Fin 0.25" control_example treatment_example]
  by (simp add: config_example_def control_example_def treatment_example_def
        calculate_roi_def lookup_def Let_def pd_sum_def dropna_def of_count_def
        minus_npfloat_def power2_eq_square power3_eq_cube)

section \<open>ROI computation: where the monetary constants come from (C10)\<close>

text \<open>
  C10, as the code has it. The ROI computation reads one value of the configuration,
  \<open>simulation.carrying_cost_rate\<close>: two configurations that agree on it give the same
  result on the same result tables, whatever else they hold. The unit cost (25), the
  cost per stockout (150), the implementation cost (50000), the annual maintenance
  (15000) and the discount rate (10 percent) are constants of the function.
\<close>

theorem calculate_roi_reads_only_carrying_rate:
  assumes "config1 ''simulation'' = Some simulation1"
    and "config2 ''simulation'' = Some simulation2"
    and "simulation1 ''carrying_cost_rate'' = simulation2 ''carrying_cost_rate''"
  shows "calculate_roi config1 control treatment = calculate_roi config2 control treatment
       \<and> (\<forall>rate. simulation1 ''carrying_cost_rate'' = Some (YNum rate) \<longrightarrow>
            (\<exists>r. calculate_roi config1 control treatment = Inr r
               \<and> roi_inventory_savings r =
                   pd_sum (map sr_avg_inventory control) * Fin 25
                   - pd_sum (map sr_avg_inventory treatment) * Fin 25
               \<and> roi_annual_carrying_savings r = roi_inventory_savings r * rate
               \<and> roi_stockout_savings r =
                   of_count ((sum_list (map sr_stockout_count control)
                              - sum_list (map sr_stockout_count treatment)) * 150)
               \<and> roi_total_annual_benefit r =
                   roi_annual_carrying_savings r + roi_stockout_savings r - Fin 15000
               \<and> roi_payback_months r =
                   (if roi_total_annual_benefit r > Fin 0
                    then Fin 50000 / (roi_total_annual_benefit r / Fin 12) else PosInf)
               \<and> roi_npv_3year r =
                   - Fin 50000 + roi_total_annual_benefit r / Fin (1.10 ^ 1)
                     + roi_total_annual_benefit r / Fin (1.10 ^ 2)
                     + roi_total_annual_benefit r / Fin (1.10 ^ 3)
               \<and> roi_roi_year1 r =
                   (roi_total_annual_benefit r - Fin 50000) / Fin 50000 * Fin 100))"
  using assms
  by (simp add: calculate_roi_def lookup_def Let_def)

theorem calculate_roi_reads_only_carrying_rate_witness:
  "calculate_roi (config_example (Fin 0.25) (Fin 25)) control_example treatment_example
     = calculate_roi (config_example (Fin 0.25) (Fin 50)) control_example treatment_example
   \<and> (\<exists>r. calculate_roi (config_example (Fin 0.25) (Fin 25)) control_example
             treatment_example = Inr r
         \<and> roi_inventory_savings r = Fin (- 500)
         \<and> roi_annual_carrying_savings r = Fin (- 125))"
proof -
  have s1: "config_example (Fin 0.25) (Fin 25) ''simulation''
              = Some [''carrying_cost_rate'' \<mapsto> YNum (Fin 0.25)]"
    by (simp add: config_example_def)
  have s2: "config_example (Fin 0.25) (Fin 50) ''simulation''
              = Some [''carrying_cost_rate'' \<mapsto> YNum (Fin 0.25)]"
    by (simp add: config_example_def)
  have rate: "[''carrying_cost_rate'' \<mapsto> YNum (Fin 0.25)] ''carrying_cost_rate''
                = Some (YNum (Fin 0.25))"
    by simp
  note t = calculate_roi_reads_only_carrying_rate
    [of "config_example (Fin 0.25) (Fin 25)" "[''carrying_cost_rate'' \<mapsto> YNum (Fin 0.25)]"
        "config_example (Fin 0.25) (Fin 50)" "[''carrying_cost_rate'' \<mapsto> YNum (Fin 0.25)]"
        control_example treatment_example, OF s1 s2 refl]
  from t have same: "calculate_roi (config_example (Fin 0.25) (Fin 25)) control_example
      treatment_example
     = calculate_roi (config_example (Fin 0.25) (Fin 50)) control_example treatment_example"
    by (rule conjunct1)
  from t rate obtain r where r:
    "calculate_roi (config_example (Fin 0.25) (Fin 25)) control_example treatment_example
       = Inr r"
    "roi_inventory_savings r =
       pd_sum (map sr_avg_inventory control_example) * Fin 25
       - pd_sum (map sr_avg_inventory treatment_example) * Fin 25"
    "roi_annual_carrying_savings r = roi_inventory_savings r * Fin 0.25"
    by blast
  have "roi_inventory_savings r = Fin (- 500)"
    using r(2)
    by (simp add: control_example_def treatment_example_def pd_sum_def dropna_def
          minus_npfloat_def)
  then show ?thesis using same r(1) r(3) by simp
qed

text \<open>
  The claim as stated fails: a configuration with unit cost 50 gives the report of the
  configuration with unit cost 25. The inventory savings of the example,
  \<open>(100 - 120) * 25 = -500\<close>, use the constant 25 in both.
\<close>

theorem calculate_roi_ignores_configured_unit_cost_counterexample:
  "calculate_roi (config_example (Fin 0.25) (Fin 25)) control_example treatment_example
     = Inr \<lparr>roi_inventory_savings = Fin (- 500), roi_annual_carrying_savings = Fin (- 125),
            roi_stockout_savings = Fin (- 150), roi_total_annual_benefit = Fin (- 15275),
            roi_payback_months = PosInf,
            roi_npv_3year = Fin (- 50000 - 15275 / 1.1 - 15275 / 1.21 - 15275 / 1.331),
            roi_roi_year1 = Fin (- 130.55)\<rparr>
   \<and> calculate_roi (config_example (Fin 0.25) (Fin 50)) control_example treatment_example
     = Inr \<lparr>roi_inventory_savings = Fin (- 500), roi_annual_carrying_savings = Fin (- 125),
            roi_stockout_savings = Fin (- 150), roi_total_annual_benefit = Fin (- 15275),
            roi_payback_months = PosInf,
            roi_npv_3year = Fin (- 50000 - 15275 / 1.1 - 15275 / 1.21 - 15275 / 1.331),
            roi_roi_year1 = Fin (- 130.55)\<rparr>"
  by (simp add: config_example_def control_example_def treatment_example_def
        calculate_roi_def lookup_def Let_def pd_sum_def dropna_def of_count_def
        minus_npfloat_def power2_eq_square power3_eq_cube)

section \<open>Facts about the sample statistics of finite values\<close>

lemma sqrt_4: "sqrt 4 = 2"
  using real_sqrt_abs[of 2] by simp

lemma pd_std_Fin_short: "length xs \<le> 1 \<Longrightarrow> pd_std (map Fin xs) = NaN"
  by (simp add: pd_std_def pd_var_def dropna_Fin)

lemma pd_mean_Fin: "xs \<noteq> [] \<Longrightarrow> pd_mean (map Fin xs) = Fin (sum_list xs / real (length xs))"
  by (simp add: pd_mean_def dropna_Fin np_mean_Fin)

lemma pd_std_Fin_cases:
  "pd_std (map Fin xs) = NaN \<or> (\<exists>s. 0 \<le> s \<and> pd_std (map Fin xs) = Fin s)"
proof (cases "length xs \<le> 1")
  case True
  then show ?thesis by (simp add: pd_std_Fin_short)
next
  case False
  then have ne: "xs \<noteq> []" by auto
  define m where "m = sum_list xs / real (length xs)"
  define v where "v = sum_list (map (\<lambda>x. (x - m) * (x - m)) xs) / real (length xs - 1)"
  have v: "0 \<le> v" unfolding v_def using sum_list_sq_nonneg[of m xs] by simp
  have "np_mean (map Fin xs) = Fin m" using ne by (simp add: np_mean_Fin m_def)
  then have "pd_var (map Fin xs) = Fin v"
    using False by (simp add: pd_var_def dropna_Fin sq_dev_Fin fsum_Fin_map v_def)
  then have "pd_std (map Fin xs) = Fin (sqrt v)" using v by (simp add: pd_std_def)
  then show ?thesis using v by auto
qed

lemma pooled_std_Fin_cases:
  "pooled_std_of (map Fin cs) (map Fin ts) = NaN
   \<or> (\<exists>s. 0 \<le> s \<and> pooled_std_of (map Fin cs) (map Fin ts) = Fin s)"
proof -
  consider "pd_std (map Fin cs) = NaN" | "pd_std (map Fin ts) = NaN"
    | s1 s2 where "0 \<le> s1" "pd_std (map Fin cs) = Fin s1" "0 \<le> s2"
        "pd_std (map Fin ts) = Fin s2"
    using pd_std_Fin_cases[of cs] pd_std_Fin_cases[of ts] by blast
  then show ?thesis
  proof cases
    case 1
    then show ?thesis by (simp add: pooled_std_of_def)
  next
    case 2
    then show ?thesis
      by (cases "pd_std (map Fin cs)") (simp_all add: pooled_std_of_def)
  next
    case 3
    have "\<not> (s1 * s1 + s2 * s2) / 2 < 0"
      by (simp add: not_less)
    then have "pooled_std_of (map Fin cs) (map Fin ts) = Fin (sqrt ((s1 * s1 + s2 * s2) / 2))"
      using 3 by (simp add: pooled_std_of_def)
    moreover have "0 \<le> sqrt ((s1 * s1 + s2 * s2) / 2)" by simp
    ultimately show ?thesis by blast
  qed
qed

lemma pooled_std_pos_nonempty:
  assumes "Fin 0 < pooled_std_of (map Fin cs) (map Fin ts)"
  shows "cs \<noteq> [] \<and> ts \<noteq> []"
proof (rule ccontr)
  assume "\<not> (cs \<noteq> [] \<and> ts \<noteq> [])"
  then have "pd_std (map Fin cs) = NaN \<or> pd_std (map Fin ts) = NaN"
    using pd_std_Fin_short[of "[]"] by auto
  then have "pooled_std_of (map Fin cs) (map Fin ts) = NaN"
    by (cases "pd_std (map Fin cs)"; cases "pd_std (map Fin ts)")
       (auto simp: pooled_std_of_def)
  then show False using assms by simp
qed

lemma pd_std_0_2_4: "pd_std [Fin 0, Fin 2, Fin 4] = Fin 2"
  by (simp add: pd_std_def pd_var_def dropna_def np_mean_def sq_dev_def minus_npfloat_def sqrt_4)

lemma pd_std_4_2_0: "pd_std [Fin 4, Fin 2, Fin 0] = Fin 2"
  by (simp add: pd_std_def pd_var_def dropna_def np_mean_def sq_dev_def minus_npfloat_def sqrt_4)

lemma pd_std_1_3_5: "pd_std [Fin 1, Fin 3, Fin 5] = Fin 2"
  by (simp add: pd_std_def pd_var_def dropna_def np_mean_def sq_dev_def minus_npfloat_def sqrt_4)

lemma pd_std_const2: "pd_std [Fin a, Fin a] = Fin 0"
  by (simp add: pd_std_def pd_var_def dropna_def np_mean_def sq_dev_def minus_npfloat_def)

section \<open>Comparator: when Cohen's d is zero (C7)\<close>

text \<open>
  C7, as the code has it. Cohen's d is the difference of the means divided by the pooled
  standard deviation when that is greater than 0, and 0 otherwise, without a division:
  so a pooled standard deviation of 0 gives \<open>d = 0\<close> whatever the means. For samples
  of finite values with a pooled standard deviation greater than 0, \<open>d\<close> is 0 exactly
  when the two means are equal.
\<close>

theorem cohens_d_zero_cases:
  "cm_cohens_d (compare_means ttest_ind alpha control treatment metric_name)
     = (if Fin 0 < pooled_std_of control treatment
        then cm_difference (compare_means ttest_ind alpha control treatment metric_name)
               / pooled_std_of control treatment
        else Fin 0)
   \<and> (pooled_std_of control treatment = Fin 0 \<longrightarrow>
        cm_cohens_d (compare_means ttest_ind alpha control treatment metric_name) = Fin 0)
   \<and> (\<forall>cs ts. control = map Fin cs \<and> treatment = map Fin ts
          \<and> Fin 0 < pooled_std_of control treatment \<longrightarrow>
        (cm_cohens_d (compare_means ttest_ind alpha control treatment metric_name) = Fin 0
          \<longleftrightarrow> cm_treatment_mean (compare_means ttest_ind alpha control treatment metric_name)
              = cm_control_mean (compare_means ttest_ind alpha control treatment metric_name)))"
proof -
  have d: "cm_cohens_d (compare_means ttest_ind alpha control treatment metric_name)
     = (if Fin 0 < pooled_std_of control treatment
        then cm_difference (compare_means ttest_ind alpha control treatment metric_name)
               / pooled_std_of control treatment
        else Fin 0)"
    by (simp add: compare_means_def Let_def split_def)
  have iff: "cm_cohens_d (compare_means ttest_ind alpha (map Fin cs) (map Fin ts) metric_name)
        = Fin 0
      \<longleftrightarrow> cm_treatment_mean (compare_means ttest_ind alpha (map Fin cs) (map Fin ts) metric_name)
          = cm_control_mean (compare_means ttest_ind alpha (map Fin cs) (map Fin ts) metric_name)"
    if pos: "Fin 0 < pooled_std_of (map Fin cs) (map Fin ts)" for cs ts
  proof -
    from pos have ne: "cs \<noteq> []" "ts \<noteq> []" using pooled_std_pos_nonempty by blast+
    obtain s where s: "pooled_std_of (map Fin cs) (map Fin ts) = Fin s" "0 < s"
      using pos pooled_std_Fin_cases[of cs ts] by auto
    show ?thesis
      using ne s
      by (simp add: compare_means_def Let_def split_def pd_mean_Fin minus_npfloat_def)
  qed
  show ?thesis using d iff by auto
qed

theorem cohens_d_zero_cases_witness:
  "pooled_std_of (map Fin [3, 3]) (map Fin [5, 5]) = Fin 0
   \<and> cm_cohens_d (compare_means ttest_nan (Fin 0.05) (map Fin [3, 3]) (map Fin [5, 5])
         ''Fill Rate (%)'') = Fin 0
   \<and> pooled_std_of (map Fin [0, 2, 4]) (map Fin [1, 3, 5]) = Fin 2
   \<and> cm_cohens_d (compare_means ttest_nan (Fin 0.05) (map Fin [0, 2, 4]) (map Fin [1, 3, 5])
         ''Fill Rate (%)'') \<noteq> Fin 0
   \<and> cm_treatment_mean (compare_means ttest_nan (Fin 0.05) (map Fin [0, 2, 4])
         (map Fin [1, 3, 5]) ''Fill Rate (%)'')
       \<noteq> cm_control_mean (compare_means ttest_nan (Fin 0.05) (map Fin [0, 2, 4])
         (map Fin [1, 3, 5]) ''Fill Rate (%)'')"
proof -
  have p0: "pooled_std_of (map Fin [3, 3]) (map Fin [5, 5]) = Fin 0"
    by (simp add: pooled_std_of_def pd_std_const2)
  have p2: "pooled_std_of (map Fin [0, 2, 4]) (map Fin [1, 3, 5]) = Fin 2"
    by (simp add: pooled_std_of_def pd_std_0_2_4 pd_std_1_3_5 sqrt_4)
  have means: "cm_treatment_mean (compare_means ttest_nan (Fin 0.05) (map Fin [0, 2, 4])
         (map Fin [1, 3, 5]) ''Fill Rate (%)'')
       \<noteq> cm_control_mean (compare_means ttest_nan (Fin 0.05) (map Fin [0, 2, 4])
         (map Fin [1, 3, 5]) ''Fill Rate (%)'')"
    by (simp add: compare_means_def Let_def split_def pd_mean_def dropna_def np_mean_def)
  note a = cohens_d_zero_cases
    [of ttest_nan "Fin 0.05" "map Fin [3, 3]" "map Fin [5, 5]" "''Fill Rate (%)''"]
  note b = cohens_d_zero_cases
    [of ttest_nan "Fin 0.05" "map Fin [0, 2, 4]" "map Fin [1, 3, 5]" "''Fill Rate (%)''"]
  from a p0 have d0: "cm_cohens_d (compare_means ttest_nan (Fin 0.05) (map Fin [3, 3])
      (map Fin [5, 5]) ''Fill Rate (%)'') = Fin 0"
    by blast
  have pos: "Fin 0 < pooled_std_of (map Fin [0, 2, 4]) (map Fin [1, 3, 5])"
    unfolding p2 by simp
  from b pos means have "cm_cohens_d (compare_means ttest_nan (Fin 0.05) (map Fin [0, 2, 4])
      (map Fin [1, 3, 5]) ''Fill Rate (%)'') \<noteq> Fin 0"
    by blast
  then show ?thesis using p0 d0 p2 means by blast
qed

text \<open>
  The claim as stated makes \<open>d = 0\<close> equivalent to a pooled standard deviation of 0. The
  samples \<open>0, 2, 4\<close> and \<open>4, 2, 0\<close> have the same mean and the pooled standard
  deviation 2: \<open>d\<close> is 0 and the pooled standard deviation is not.
\<close>

theorem cohens_d_zero_with_positive_pooled_std_counterexample:
  "cm_cohens_d (compare_means ttest_nan (Fin 0.05) (map Fin [0, 2, 4]) (map Fin [4, 2, 0])
      ''Fill Rate (%)'') = Fin 0
   \<and> pooled_std_of (map Fin [0, 2, 4]) (map Fin [4, 2, 0]) = Fin 2
   \<and> pooled_std_of (map Fin [0, 2, 4]) (map Fin [4, 2, 0]) \<noteq> Fin 0"
proof -
  have p2: "pooled_std_of (map Fin [0, 2, 4]) (map Fin [4, 2, 0]) = Fin 2"
    by (simp add: pooled_std_of_def pd_std_0_2_4 pd_std_4_2_0 sqrt_4)
  have "cm_cohens_d (compare_means ttest_nan (Fin 0.05) (map Fin [0, 2, 4]) (map Fin [4, 2, 0])
      ''Fill Rate (%)'') = Fin 0"
    using p2
    by (simp add: compare_means_def Let_def split_def pd_mean_def dropna_def np_mean_def
          minus_npfloat_def)
  then show ?thesis using p2 by simp
qed

section \<open>Comparator: percent change on a zero control mean (C8)\<close>

text \<open>
  C8. The comparator divides the difference by the control mean without looking at it.
  With a control sample \<open>0, 0\<close> the control mean is 0: against the treatment sample
  \<open>1, 3\<close> the percent change is \<open>inf\<close>, against \<open>0, 0\<close> it is \<open>nan\<close>. Neither is
  flagged: the field holds the quotient.
\<close>

theorem pct_change_zero_control_mean_unguarded:
  "cm_control_mean (compare_means ttest_nan (Fin 0.05) (map Fin [0, 0]) (map Fin [1, 3])
      ''Stockout Count'') = Fin 0
   \<and> cm_pct_change (compare_means ttest_nan (Fin 0.05) (map Fin [0, 0]) (map Fin [1, 3])
      ''Stockout Count'') = PosInf
   \<and> cm_pct_change (compare_means ttest_nan (Fin 0.05) (map Fin [0, 0]) (map Fin [0, 0])
      ''Stockout Count'') = NaN"
  by (simp add: compare_means_def Let_def split_def pd_mean_def dropna_def np_mean_def
        minus_npfloat_def)

section \<open>Inventory simulator: fill rate and demand met (C1)\<close>

lemma draw_demand_nonneg:
  assumes choice: "\<forall>g xs. xs \<noteq> [] \<longrightarrow> fst (rng_choice R g xs) \<in> set xs"
    and demand: "\<forall>row\<in>set demand_data. \<exists>q. dd_quantity row = Fin q \<and> 0 \<le> q"
  shows "\<exists>q. 0 \<le> q \<and> fst (draw_demand R g demand_data) = Fin q"
proof (cases "demand_data = []")
  case True
  then show ?thesis by (simp add: draw_demand_def)
next
  case False
  then have "map dd_quantity demand_data \<noteq> []" by simp
  with choice
  have "fst (rng_choice R g (map dd_quantity demand_data)) \<in> set (map dd_quantity demand_data)"
    by blast
  then obtain row where "row \<in> set demand_data"
    "fst (rng_choice R g (map dd_quantity demand_data)) = dd_quantity row"
    by auto
  then show ?thesis using demand False by (auto simp: draw_demand_def)
qed

lemma fulfill_demand_sound:
  assumes "sound_state s" "0 \<le> d"
  shows "sound_state (fulfill_demand (Fin d) (s\<lparr>total_demand := total_demand s + Fin d\<rparr>))"
  using assms
  by (auto simp: sound_state_def fulfill_demand_def minus_npfloat_def)

lemma order_quantity_Fin: "order_quantity (Fin r) = Fin (r * 1.5)"
  by (simp add: order_quantity_def)

lemma check_reorder_sound_qty:
  assumes "sound_state s" "0 \<le> oq"
  shows "sound_state (check_reorder rop (Fin oq) s)"
  using assms by (auto simp: sound_state_def check_reorder_def)

lemma check_reorder_sound:
  assumes "sound_state s" "0 \<le> r"
  shows "sound_state (check_reorder (Fin r) (order_quantity (Fin r)) s)"
proof -
  have "0 \<le> r * 1.5" using assms(2) by simp
  then show ?thesis
    unfolding order_quantity_Fin using assms(1) by (rule check_reorder_sound_qty[rotated])
qed

lemma receive_orders_sound:
  assumes "sound_state s"
  shows "sound_state (fst (receive_orders R lead_time (s, g)))"
  using assms
  by (auto simp: sound_state_def receive_orders_def Let_def split: prod.splits)

lemma record_level_sound:
  "sound_state s \<Longrightarrow> sound_state (s\<lparr>inventory_levels := ls\<rparr>)"
  by (simp add: sound_state_def)

lemma simulate_day_sound:
  assumes choice: "\<forall>g xs. xs \<noteq> [] \<longrightarrow> fst (rng_choice R g xs) \<in> set xs"
    and demand: "\<forall>row\<in>set demand_data. \<exists>q. dd_quantity row = Fin q \<and> 0 \<le> q"
    and rop: "0 \<le> r"
    and s: "sound_state (fst sg)"
  shows "sound_state (fst (simulate_day R demand_data (Fin r) (order_quantity (Fin r))
                             lead_time sg))"
proof -
  obtain s0 g where sg: "sg = (s0, g)" by (cases sg)
  obtain d g1 where dr: "draw_demand R g demand_data = (d, g1)"
    by (cases "draw_demand R g demand_data")
  obtain q where q: "0 \<le> q" "d = Fin q"
    using draw_demand_nonneg[OF choice demand, of g] dr by auto
  define s3 where "s3 = check_reorder (Fin r) (order_quantity (Fin r))
                          (fulfill_demand (Fin q) (s0\<lparr>total_demand := total_demand s0 + Fin q\<rparr>))"
  have "sound_state s3"
    unfolding s3_def using s sg q(1) rop
    by (simp add: check_reorder_sound fulfill_demand_sound)
  then have s4: "sound_state (fst (receive_orders R lead_time (s3, g1)))"
    by (rule receive_orders_sound)
  obtain s4 g2 where rc: "receive_orders R lead_time (s3, g1) = (s4, g2)"
    by (cases "receive_orders R lead_time (s3, g1)")
  have "simulate_day R demand_data (Fin r) (order_quantity (Fin r)) lead_time sg
          = (s4\<lparr>inventory_levels := inventory_levels s4 @ [inventory s4]\<rparr>, g2)"
    using dr q(2) rc unfolding sg simulate_day_def s3_def by (simp add: Let_def)
  then show ?thesis using s4 rc by (simp add: record_level_sound)
qed

lemma simulate_days_sound:
  assumes choice: "\<forall>g xs. xs \<noteq> [] \<longrightarrow> fst (rng_choice R g xs) \<in> set xs"
    and demand: "\<forall>row\<in>set demand_data. \<exists>q. dd_quantity row = Fin q \<and> 0 \<le> q"
    and rop: "0 \<le> r"
  shows "sound_state (fst (simulate_days R demand_data (Fin r) (order_quantity (Fin r))
                             lead_time n (initial_state (Fin r), g)))"
proof (induction n)
  case 0
  then show ?case using rop by (simp add: sound_state_def initial_state_def)
next
  case (Suc n)
  then show ?case using simulate_day_sound[OF choice demand rop] by simp
qed

lemma counter_rng_choice:
  "\<forall>g xs. xs \<noteq> [] \<longrightarrow> fst (rng_choice counter_rng g xs) \<in> set xs"
  by (simp add: counter_rng_def)

text \<open>
  C1, as the code has it. For a demand history of finite quantities \<open>\<ge> 0\<close> (the empty
  history included), a finite reorder point \<open>r \<ge> 0\<close>, every lead time, every horizon and
  every generator whose \<open>choice\<close> returns an entry of the array it is given, the
  simulation returns a fill rate between 0 and 100 and a demand met that is at most the
  total demand; when the total demand is 0 the fill rate is 100.
\<close>

theorem simulate_sku_inventory_fill_rate_bounds:
  assumes choice: "\<forall>g xs. xs \<noteq> [] \<longrightarrow> fst (rng_choice R g xs) \<in> set xs"
    and demand: "\<forall>row\<in>set demand_data. \<exists>q. dd_quantity row = Fin q \<and> 0 \<le> q"
    and rop: "0 \<le> r"
  shows "Fin 0 \<le> sr_fill_rate
            (fst (simulate_sku_inventory R test_days g sku demand_data (Fin r) lead_time))
       \<and> sr_fill_rate
            (fst (simulate_sku_inventory R test_days g sku demand_data (Fin r) lead_time))
           \<le> Fin 100
       \<and> sr_demand_met
            (fst (simulate_sku_inventory R test_days g sku demand_data (Fin r) lead_time))
           \<le> sr_total_demand
                (fst (simulate_sku_inventory R test_days g sku demand_data (Fin r) lead_time))
       \<and> (sr_total_demand
            (fst (simulate_sku_inventory R test_days g sku demand_data (Fin r) lead_time))
             = Fin 0
           \<longrightarrow> sr_fill_rate
                 (fst (simulate_sku_inventory R test_days g sku demand_data (Fin r) lead_time))
                = Fin 100)"
proof -
  obtain s g' where run: "simulate_days R demand_data (Fin r) (order_quantity (Fin r)) lead_time
                            test_days (initial_state (Fin r), g) = (s, g')"
    by (cases "simulate_days R demand_data (Fin r) (order_quantity (Fin r)) lead_time
                 test_days (initial_state (Fin r), g)")
  have "sound_state s"
    using simulate_days_sound[OF choice demand rop, of lead_time test_days g] run by simp
  then obtain m t where mt: "demand_met s = Fin m" "total_demand s = Fin t" "0 \<le> m" "m \<le> t"
    by (auto simp: sound_state_def)
  have res: "fst (simulate_sku_inventory R test_days g sku demand_data (Fin r) lead_time)
     = \<lparr>sr_fill_rate = (if 0 < t then Fin (m / t * 100) else Fin 100),
        sr_avg_inventory = np_mean (inventory_levels s), sr_stockout_count = stockouts s,
        sr_total_demand = Fin t, sr_demand_met = Fin m\<rparr>"
    using run mt by (simp add: simulate_sku_inventory_def Let_def)
  have "0 < t \<Longrightarrow> 0 \<le> m / t * 100 \<and> m / t * 100 \<le> 100"
    using mt(3,4) by (simp add: divide_le_eq)
  then show ?thesis unfolding res using mt(3,4) by auto
qed

theorem simulate_sku_inventory_fill_rate_bounds_witness:
  "Fin 0 \<le> sr_fill_rate
      (fst (simulate_sku_inventory counter_rng 2 0 (1::nat) demand_example (Fin 10) (Fin 2)))
   \<and> sr_fill_rate
      (fst (simulate_sku_inventory counter_rng 2 0 (1::nat) demand_example (Fin 10) (Fin 2)))
     \<le> Fin 100
   \<and> sr_demand_met
      (fst (simulate_sku_inventory counter_rng 2 0 (1::nat) demand_example (Fin 10) (Fin 2)))
     \<le> sr_total_demand
      (fst (simulate_sku_inventory counter_rng 2 0 (1::nat) demand_example (Fin 10) (Fin 2)))
   \<and> sr_total_demand
      (fst (simulate_sku_inventory counter_rng 2 0 (1::nat) [] (Fin 10) (Fin 2))) = Fin 0
   \<and> sr_fill_rate
      (fst (simulate_sku_inventory counter_rng 2 0 (1::nat) [] (Fin 10) (Fin 2))) = Fin 100"
proof -
  have d: "\<forall>row\<in>set demand_example. \<exists>q. dd_quantity row = Fin q \<and> 0 \<le> q"
    by (simp add: demand_example_def)
  have e: "\<forall>row\<in>set ([] :: nat demand_row list). \<exists>q. dd_quantity row = Fin q \<and> 0 \<le> q"
    by simp
  have r: "(0::real) \<le> 10" by simp
  note a = simulate_sku_inventory_fill_rate_bounds
    [OF counter_rng_choice d r, of 2 0 1 "Fin 2"]
  note b = simulate_sku_inventory_fill_rate_bounds
    [OF counter_rng_choice e r, of 2 0 1 "Fin 2"]
  have z: "sr_total_demand
      (fst (simulate_sku_inventory counter_rng 2 0 (1::nat) [] (Fin 10) (Fin 2))) = Fin 0"
    by (simp add: simulate_sku_inventory_def simulate_day_def draw_demand_def
          fulfill_demand_def check_reorder_def receive_orders_def initial_state_def
          order_quantity_def counter_rng_def Let_def minus_npfloat_def eval_nat_numeral
          split_def)
  from b z have "sr_fill_rate
      (fst (simulate_sku_inventory counter_rng 2 0 (1::nat) [] (Fin 10) (Fin 2))) = Fin 100"
    by blast
  then show ?thesis using a z by blast
qed

text \<open>
  The claim as stated admits any reorder point. With the reorder point \<open>-10\<close> the
  run starts with the inventory \<open>-20\<close>; on the first day the demand 5 exceeds it, so the
  inventory, \<open>-20\<close>, is counted as met: the fill rate after one day is \<open>-400\<close>.
\<close>

theorem simulate_sku_inventory_negative_rop_counterexample:
  "simulate_sku_inventory counter_rng 1 0 (1::nat) [\<lparr>dd_sku_id = 1, dd_quantity = Fin 5\<rparr>]
      (Fin (- 10)) (Fin 14)
     = (\<lparr>sr_fill_rate = Fin (- 400), sr_avg_inventory = Fin 0, sr_stockout_count = 1,
         sr_total_demand = Fin 5, sr_demand_met = Fin (- 20)\<rparr>, 1)
   \<and> \<not> Fin 0 \<le> sr_fill_rate
          (fst (simulate_sku_inventory counter_rng 1 0 (1::nat)
                  [\<lparr>dd_sku_id = 1, dd_quantity = Fin 5\<rparr>] (Fin (- 10)) (Fin 14)))"
  by (simp add: simulate_sku_inventory_def simulate_day_def draw_demand_def
        fulfill_demand_def check_reorder_def receive_orders_def initial_state_def
        order_quantity_def counter_rng_def np_mean_def Let_def)

section \<open>Statistics builder: a SKU with one demand observation (C3)\<close>

text \<open>
  C3. A SKU with one demand row (quantity 5) and one purchase order (lead time 14): the
  sample standard deviation of one value is \<open>nan\<close> in both tables. The builder replaces
  it in the lead-time column (by 3) and leaves it in \<open>demand_std\<close>. The fixed policy
  then returns \<open>nan\<close> as safety stock and as reorder point, and the simulation of the
  SKU in the control arm (here over 3 days) returns a fill rate and a demand met of
  \<open>nan\<close>, with a stockout on every day.
\<close>

theorem single_observation_std_is_nan:
  "calculate_sku_statistics [\<lparr>dd_sku_id = (1::nat), dd_quantity = Fin 5\<rparr>]
       [\<lparr>po_sku_id = 1, po_lead_time_days = Fin 14\<rparr>]
     = [\<lparr>st_sku_id = 1, st_avg_daily_demand = Fin 5, st_demand_std = NaN,
         st_total_demand = Fin 5, st_avg_lead_time = Fin 14, st_lead_time_std = Fin 3\<rparr>]
   \<and> rr_safety_stock (calculate_fixed_rop norm_ppf_table (Fin 5) (Fin 14) NaN 0.95) = NaN
   \<and> rr_rop (calculate_fixed_rop norm_ppf_table (Fin 5) (Fin 14) NaN 0.95) = NaN
   \<and> simulate_group counter_rng norm_ppf_table 0.95 3 0 [1]
         [\<lparr>dd_sku_id = (1::nat), dd_quantity = Fin 5\<rparr>]
         (calculate_sku_statistics [\<lparr>dd_sku_id = (1::nat), dd_quantity = Fin 5\<rparr>]
       [\<lparr>po_sku_id = 1, po_lead_time_days = Fin 14\<rparr>])
         ''fixed''
     = Inr ([\<lparr>sr_fill_rate = NaN, sr_avg_inventory = Fin 0, sr_stockout_count = 3,
              sr_total_demand = Fin 15, sr_demand_met = NaN, sr_sku_id = 1,
              sr_method = ''fixed'', sr_rop = NaN, sr_safety_stock = NaN\<rparr>], 3)"
proof -
  have stats: "calculate_sku_statistics [\<lparr>dd_sku_id = (1::nat), dd_quantity = Fin 5\<rparr>]
       [\<lparr>po_sku_id = 1, po_lead_time_days = Fin 14\<rparr>]
     = [\<lparr>st_sku_id = 1, st_avg_daily_demand = Fin 5, st_demand_std = NaN,
         st_total_demand = Fin 5, st_avg_lead_time = Fin 14, st_lead_time_std = Fin 3\<rparr>]"
    by (simp add: calculate_sku_statistics_def pd_mean_def pd_std_def pd_var_def pd_sum_def
          dropna_def np_mean_def fillna_def)
  have fixed: "calculate_fixed_rop norm_ppf_table (Fin 5) (Fin 14) NaN 0.95
     = \<lparr>rr_rop = NaN, rr_safety_stock = NaN, rr_method = ''fixed'', rr_wma_demand = None,
        rr_forecasted_lt = None\<rparr>"
    by (simp add: calculate_fixed_rop_def norm_ppf_table_def Let_def)
  have sim: "simulate_sku_inventory counter_rng 3 0 (1::nat)
               [\<lparr>dd_sku_id = (1::nat), dd_quantity = Fin 5\<rparr>] NaN (Fin 14)
     = (\<lparr>sr_fill_rate = NaN, sr_avg_inventory = Fin 0, sr_stockout_count = 3,
         sr_total_demand = Fin 15, sr_demand_met = NaN\<rparr>, 3)"
    by (simp add: simulate_sku_inventory_def simulate_day_def draw_demand_def
          fulfill_demand_def check_reorder_def receive_orders_def initial_state_def
          order_quantity_def counter_rng_def np_mean_def Let_def eval_nat_numeral)
  show ?thesis
    unfolding stats using fixed sim
    by (simp add: simulate_sku_def Let_def)
qed

section \<open>Assignment strategy: stratified and seeded (C4)\<close>

lemma assign_class_split:
  assumes "length (fst (rng_shuffle R g (class_skus_of sku_master abc_class)))
             = length (class_skus_of sku_master abc_class)"
  shows "\<exists>c t g'. rng_shuffle R g (class_skus_of sku_master abc_class) = (c @ t, g')
           \<and> length c = length (class_skus_of sku_master abc_class) div 2
           \<and> length c \<le> length t \<and> length t - length c \<le> 1
           \<and> assign_class R sku_master abc_class (control_skus, treatment_skus, g)
               = (control_skus @ c, treatment_skus @ t, g')"
proof -
  define n where "n = length (class_skus_of sku_master abc_class)"
  obtain xs g' where sh: "rng_shuffle R g (class_skus_of sku_master abc_class) = (xs, g')"
    by (cases "rng_shuffle R g (class_skus_of sku_master abc_class)")
  with assms have len: "length xs = n" by (simp add: n_def)
  have "rng_shuffle R g (class_skus_of sku_master abc_class)
          = (take (n div 2) xs @ drop (n div 2) xs, g')"
    using sh by simp
  moreover have "length (take (n div 2) xs) = n div 2" using len by simp
  moreover have "length (take (n div 2) xs) \<le> length (drop (n div 2) xs)"
    using len by simp
  moreover have "length (drop (n div 2) xs) - length (take (n div 2) xs) \<le> 1"
    using len by simp
  moreover have "assign_class R sku_master abc_class (control_skus, treatment_skus, g)
       = (control_skus @ take (n div 2) xs, treatment_skus @ drop (n div 2) xs, g')"
    using sh by (simp add: assign_class_def n_def Let_def)
  ultimately show ?thesis unfolding n_def by blast
qed

lemma mset_rotate: "mset (rotate n xs) = mset xs"
proof -
  have "mset (take (n mod length xs) xs) + mset (drop (n mod length xs) xs) = mset xs"
    by (metis append_take_drop_id mset_append)
  then show ?thesis
    by (simp add: rotate_drop_take union_commute)
qed

lemma counter_rng_shuffle:
  "\<forall>g xs. mset (fst (rng_shuffle counter_rng g xs)) = mset xs"
  by (simp add: counter_rng_def mset_rotate)

lemma example_class_A: "class_skus_of sku_master_example ''A'' = [1, 2, 3]"
  by (simp add: class_skus_of_def sku_master_example_def)

lemma example_class_B: "class_skus_of sku_master_example ''B'' = [4]"
  by (simp add: class_skus_of_def sku_master_example_def)

lemma example_class_C: "class_skus_of sku_master_example ''C'' = []"
  by (simp add: class_skus_of_def sku_master_example_def)

text \<open>
  C4. With a generator whose \<open>shuffle\<close> returns a permutation of its list, the
  assignment seeds the generator with the configured seed, shuffles the SKUs of class A,
  then of class B, then of class C, each time with the generator as the previous shuffle
  left it, and splits each shuffled stratum at the floor of half its size: the first part
  goes to control and the rest to treatment. In every stratum the treatment part has
  as many SKUs as the control part or one more. The result does not depend on the state
  \<open>g0\<close> of the generator before the call: with the same seed and the same SKU master, two
  runs return the same lists.
\<close>

theorem assign_treatment_groups_stratified:
  assumes perm: "\<forall>g xs. mset (fst (rng_shuffle R g xs)) = mset xs"
  shows "\<exists>cA tA gA cB tB gB cC tC gC.
       rng_shuffle R (rng_seed R random_seed) (class_skus_of sku_master ''A'') = (cA @ tA, gA)
     \<and> rng_shuffle R gA (class_skus_of sku_master ''B'') = (cB @ tB, gB)
     \<and> rng_shuffle R gB (class_skus_of sku_master ''C'') = (cC @ tC, gC)
     \<and> length cA = length (class_skus_of sku_master ''A'') div 2
     \<and> length cB = length (class_skus_of sku_master ''B'') div 2
     \<and> length cC = length (class_skus_of sku_master ''C'') div 2
     \<and> assign_treatment_groups R random_seed g0 sku_master
         = (cA @ cB @ cC, tA @ tB @ tC, gC)
     \<and> length cA \<le> length tA \<and> length tA - length cA \<le> 1
     \<and> length cB \<le> length tB \<and> length tB - length cB \<le> 1
     \<and> length cC \<le> length tC \<and> length tC - length cC \<le> 1
     \<and> assign_treatment_groups R random_seed g1 sku_master
         = assign_treatment_groups R random_seed g0 sku_master"
proof -
  have len: "length (fst (rng_shuffle R g xs)) = length xs" for g xs
    using perm by (metis size_mset)
  obtain cA tA gA where A:
    "rng_shuffle R (rng_seed R random_seed) (class_skus_of sku_master ''A'') = (cA @ tA, gA)"
    "length cA = length (class_skus_of sku_master ''A'') div 2"
    "length cA \<le> length tA" "length tA - length cA \<le> 1"
    "assign_class R sku_master ''A'' ([], [], rng_seed R random_seed) = ([] @ cA, [] @ tA, gA)"
    using assign_class_split[of R "rng_seed R random_seed" sku_master "''A''" "[]" "[]"] len
    by blast
  obtain cB tB gB where B:
    "rng_shuffle R gA (class_skus_of sku_master ''B'') = (cB @ tB, gB)"
    "length cB = length (class_skus_of sku_master ''B'') div 2"
    "length cB \<le> length tB" "length tB - length cB \<le> 1"
    "assign_class R sku_master ''B'' (cA, tA, gA) = (cA @ cB, tA @ tB, gB)"
    using assign_class_split[of R gA sku_master "''B''" cA tA] len
    by blast
  obtain cC tC gC where C:
    "rng_shuffle R gB (class_skus_of sku_master ''C'') = (cC @ tC, gC)"
    "length cC = length (class_skus_of sku_master ''C'') div 2"
    "length cC \<le> length tC" "length tC - length cC \<le> 1"
    "assign_class R sku_master ''C'' (cA @ cB, tA @ tB, gB)
       = ((cA @ cB) @ cC, (tA @ tB) @ tC, gC)"
    using assign_class_split[of R gB sku_master "''C''" "cA @ cB" "tA @ tB"] len
    by blast
  have run: "assign_treatment_groups R random_seed g sku_master
               = (cA @ cB @ cC, tA @ tB @ tC, gC)" for g
    using A(5) B(5) C(5) by (simp add: assign_treatment_groups_def)
  show ?thesis
  proof (intro exI conjI)
    show "rng_shuffle R (rng_seed R random_seed) (class_skus_of sku_master ''A'')
            = (cA @ tA, gA)" by (rule A(1))
    show "rng_shuffle R gA (class_skus_of sku_master ''B'') = (cB @ tB, gB)" by (rule B(1))
    show "rng_shuffle R gB (class_skus_of sku_master ''C'') = (cC @ tC, gC)" by (rule C(1))
    show "length cA = length (class_skus_of sku_master ''A'') div 2" by (rule A(2))
    show "length cB = length (class_skus_of sku_master ''B'') div 2" by (rule B(2))
    show "length cC = length (class_skus_of sku_master ''C'') div 2" by (rule C(2))
    show "assign_treatment_groups R random_seed g0 sku_master
            = (cA @ cB @ cC, tA @ tB @ tC, gC)" by (rule run)
    show "length cA \<le> length tA" by (rule A(3))
    show "length tA - length cA \<le> 1" by (rule A(4))
    show "length cB \<le> length tB" by (rule B(3))
    show "length tB - length cB \<le> 1" by (rule B(4))
    show "length cC \<le> length tC" by (rule C(3))
    show "length tC - length cC \<le> 1" by (rule C(4))
    show "assign_treatment_groups R random_seed g1 sku_master
            = assign_treatment_groups R random_seed g0 sku_master"
      by (simp add: run)
  qed
qed

theorem assign_treatment_groups_stratified_witness:
  "assign_treatment_groups counter_rng 1 0 sku_master_example = ([2], [3, 1, 4], 4)
   \<and> (\<exists>cA tA gA cB tB gB cC tC gC.
       rng_shuffle counter_rng (rng_seed (counter_rng :: (nat, nat) np_random) 1) (class_skus_of sku_master_example ''A'')
         = (cA @ tA, gA)
     \<and> rng_shuffle counter_rng gA (class_skus_of sku_master_example ''B'') = (cB @ tB, gB)
     \<and> rng_shuffle counter_rng gB (class_skus_of sku_master_example ''C'') = (cC @ tC, gC)
     \<and> length cA = length (class_skus_of sku_master_example ''A'') div 2
     \<and> length cB = length (class_skus_of sku_master_example ''B'') div 2
     \<and> length cC = length (class_skus_of sku_master_example ''C'') div 2
     \<and> assign_treatment_groups counter_rng 1 0 sku_master_example
         = (cA @ cB @ cC, tA @ tB @ tC, gC)
     \<and> length cA \<le> length tA \<and> length tA - length cA \<le> 1
     \<and> length cB \<le> length tB \<and> length tB - length cB \<le> 1
     \<and> length cC \<le> length tC \<and> length tC - length cC \<le> 1
     \<and> assign_treatment_groups counter_rng 1 7 sku_master_example
         = assign_treatment_groups counter_rng 1 0 sku_master_example)"
proof (rule conjI)
  show "assign_treatment_groups counter_rng 1 0 sku_master_example = ([2], [3, 1, 4], 4)"
    by (simp add: assign_treatment_groups_def assign_class_def example_class_A
          example_class_B example_class_C counter_rng_def Let_def)
  show "\<exists>cA tA gA cB tB gB cC tC gC.
       rng_shuffle counter_rng (rng_seed (counter_rng :: (nat, nat) np_random) 1) (class_skus_of sku_master_example ''A'')
         = (cA @ tA, gA)
     \<and> rng_shuffle counter_rng gA (class_skus_of sku_master_example ''B'') = (cB @ tB, gB)
     \<and> rng_shuffle counter_rng gB (class_skus_of sku_master_example ''C'') = (cC @ tC, gC)
     \<and> length cA = length (class_skus_of sku_master_example ''A'') div 2
     \<and> length cB = length (class_skus_of sku_master_example ''B'') div 2
     \<and> length cC = length (class_skus_of sku_master_example ''C'') div 2
     \<and> assign_treatment_groups counter_rng 1 0 sku_master_example
         = (cA @ cB @ cC, tA @ tB @ tC, gC)
     \<and> length cA \<le> length tA \<and> length tA - length cA \<le> 1
     \<and> length cB \<le> length tB \<and> length tB - length cB \<le> 1
     \<and> length cC \<le> length tC \<and> length tC - length cC \<le> 1
     \<and> assign_treatment_groups counter_rng 1 7 sku_master_example
         = assign_treatment_groups counter_rng 1 0 sku_master_example"
    by (rule assign_treatment_groups_stratified[OF counter_rng_shuffle])
qed

section \<open>Inventory simulator: at most one outstanding order (C6)\<close>










end
